theory Spec2Isabelle
  imports Main
begin

section \<open>Values exchanged with the ledger contract and the cache\<close>

type_synonym address = string
type_synonym key = string

text \<open>
  The object built in \<^verbatim>\<open>getNFTMetadata\<close> (services/blockchainService.js) from the
  contract's answer, and the contract's answer itself: the contract returns its integers as
  arbitrary-precision BigNumbers, read here as naturals.
\<close>

record nft_metadata =
  nft_tokenId :: nat
  nft_metadataURI :: string
  nft_points :: nat
  nft_tier :: string
  nft_expiryTime :: nat
  nft_exists :: bool

text \<open>The object built in \<^verbatim>\<open>getFreeWashStatus\<close>.\<close>

record free_wash_status =
  fw_available :: bool
  fw_expiryTime :: nat
  fw_used :: bool

text \<open>
  JavaScript is untyped: a gateway read returns whatever JSON value the cache holds under
  its key. The three shapes the gateway ever stores are the constructors of \<open>jsval\<close>.
\<close>

datatype jsval = JNum nat | JNft nft_metadata | JFreeWash free_wash_status

section \<open>Tier engine (services/ipfsService.js)\<close>

text \<open>
  \<^verbatim>\<open>determineTierByPoints\<close>: the tiers are the strings the source returns. The
  points it is given come from \<^verbatim>\<open>getUserPoints\<close>, a non-negative integer.
\<close>

definition determineTierByPoints :: "nat \<Rightarrow> string" where
  "determineTierByPoints p =
     (if p \<ge> 5000 then ''Gold''
      else if p \<ge> 1000 then ''Silver''
      else ''Bronze'')"

section \<open>Number coercion\<close>

text \<open>
  \<^verbatim>\<open>Number(points.toString())\<close>: the decimal digits of the BigNumber are read as an
  IEEE-754 double, that is the integer is rounded to 53 significant bits, to nearest and
  ties to even. \<open>bitlen n\<close> is the number of binary digits of \<open>n\<close>. The contract's
  integers have at most 256 bits, far below the range where a double overflows.
\<close>

fun bitlen :: "nat \<Rightarrow> nat" where
  "bitlen n = (if n = 0 then 0 else Suc (bitlen (n div 2)))"

definition MAX_SAFE_INTEGER :: nat where
  "MAX_SAFE_INTEGER = 2 ^ 53 - 1"

definition Number_of :: "nat \<Rightarrow> nat" where
  "Number_of n =
     (if bitlen n \<le> 53 then n
      else let e = bitlen n - 53;
               q = n div 2 ^ e;
               r = n mod 2 ^ e;
               half = 2 ^ (e - 1)
           in (if r > half \<or> (r = half \<and> odd q) then q + 1 else q) * 2 ^ e)"

section \<open>The world outside the process\<close>

text \<open>
  The ledger contract's data, as far as the gateway reads it. What the contract does to
  this data when a transaction is recorded is not part of the repository: it is the
  parameter \<open>contract_recordTransaction\<close> of the world below, which also gives the hash
  of the receipt.
\<close>

record chain =
  ledger_userPoints :: "address \<Rightarrow> nat"
  ledger_nftMetadata :: "address \<Rightarrow> nft_metadata"
  ledger_freeWashStatus :: "address \<Rightarrow> free_wash_status"

text \<open>Commands sent to Redis, calls made to the contract, e-mails handed to SES.\<close>

datatype redis_cmd = GET key | SETEX key nat jsval | DEL key

datatype chain_call =
    CallGetUserPoints address
  | CallGetNFTMetadata address
  | CallGetFreeWashStatus address
  | CallRecordTransaction address nat
  | CallEncodeSignature address int nat

datatype mail =
    FreeWashActivatedMail string string
  | TierUpgradeMail address jsval string

datatype event =
    TransactionRecorded address string string string jsval
  | TierUpgraded address string string jsval

text \<open>The errors thrown: a rejected contract call, and the two of \<^verbatim>\<open>signRedeemPackage\<close>.\<close>

datatype error =
    ChainCallFailed chain_call
  | InvalidPackageType
  | InsufficientPoints nat jsval

record user =
  user_email :: string

text \<open>A document of the Transaction model (models/Transaction.js).\<close>

record transaction =
  tx_userAddress :: address
  tx_date :: string
  tx_vehicleType :: string
  tx_serviceType :: string
  tx_price :: nat
  tx_recordedOnChain :: bool
  tx_blockchainTxHash :: "string option"
  tx_createdAt :: nat

text \<open>
  Everything the process talks to. \<open>redis_data\<close> maps a key to its value and the time
  (milliseconds) at which it expires; \<open>clock\<close> is \<^verbatim>\<open>Date.now()\<close>. Each external service
  keeps the log of what was asked of it, and has a schedule saying whether its \<open>n\<close>-th
  request (counted from 0) fails: \<open>redis_down\<close>, \<open>chain_down\<close>, \<open>mail_down\<close>. The Store
  (MongoDB) is taken to answer every request. \<open>users\<close> is the users collection by stored
  address, which the User schema keeps trimmed and in lower case.
\<close>

record world =
  redis_data :: "key \<rightharpoonup> jsval \<times> nat"
  redis_log :: "redis_cmd list"
  redis_down :: "nat \<Rightarrow> bool"
  clock :: nat
  ledger :: chain
  chain_log :: "chain_call list"
  chain_down :: "nat \<Rightarrow> bool"
  contract_recordTransaction :: "address \<Rightarrow> nat \<Rightarrow> chain \<Rightarrow> chain \<times> string"
  encoder :: "address \<Rightarrow> int \<Rightarrow> nat \<Rightarrow> string"
  users :: "address \<rightharpoonup> user"
  transactions :: "transaction list"
  mail_log :: "(mail \<times> bool) list"
  mail_down :: "nat \<Rightarrow> bool"
  io :: bool
  emitted :: "event list"

section \<open>Cache store (services/cacheService.js)\<close>

definition DEFAULT_EXPIRY :: nat where
  "DEFAULT_EXPIRY = 60 * 10"

definition generateKey :: "string \<Rightarrow> string \<Rightarrow> key" where
  "generateKey prefix identifier = prefix @ '':'' @ identifier"

definition USER_POINTS :: string where "USER_POINTS = ''userPoints''"
definition FREE_WASH_STATUS :: string where "FREE_WASH_STATUS = ''freeWashStatus''"
definition NFT_METADATA :: string where "NFT_METADATA = ''nftMetadata''"

text \<open>Whether the next Redis command throws, and what a key holds once expiry is applied.\<close>

definition redis_fails :: "world \<Rightarrow> bool" where
  "redis_fails s = redis_down s (length (redis_log s))"

definition redis_lookup :: "world \<Rightarrow> key \<Rightarrow> jsval option" where
  "redis_lookup s k =
     (case redis_data s k of
        None \<Rightarrow> None
      | Some (v, expires) \<Rightarrow> if clock s < expires then Some v else None)"

text \<open>
  \<^verbatim>\<open>cacheData\<close>, \<^verbatim>\<open>getCachedData\<close>, \<^verbatim>\<open>invalidateCache\<close>: each wraps one Redis command
  in a try block whose catch logs and returns \<^verbatim>\<open>false\<close> or \<^verbatim>\<open>null\<close>. The values the
  gateway stores survive JSON.stringify and JSON.parse unchanged and none serialises to
  the empty string, so a stored value is a hit.
\<close>

definition cacheData :: "key \<Rightarrow> jsval \<Rightarrow> nat \<Rightarrow> world \<Rightarrow> bool \<times> world" where
  "cacheData k v expirySeconds s =
     (let s' = s\<lparr>redis_log := redis_log s @ [SETEX k expirySeconds v]\<rparr>
      in if redis_fails s then (False, s')
         else (True, s'\<lparr>redis_data := (redis_data s)(k \<mapsto> (v, clock s + expirySeconds * 1000))\<rparr>))"

definition getCachedData :: "key \<Rightarrow> world \<Rightarrow> jsval option \<times> world" where
  "getCachedData k s =
     (let s' = s\<lparr>redis_log := redis_log s @ [GET k]\<rparr>
      in if redis_fails s then (None, s') else (redis_lookup s k, s'))"

definition invalidateCache :: "key \<Rightarrow> world \<Rightarrow> bool \<times> world" where
  "invalidateCache k s =
     (let s' = s\<lparr>redis_log := redis_log s @ [DEL k]\<rparr>
      in if redis_fails s then (False, s')
         else (True, s'\<lparr>redis_data := (redis_data s)(k := None)\<rparr>))"

section \<open>Ledger gateway (services/blockchainService.js)\<close>

text \<open>
  A contract call: \<^verbatim>\<open>getContract()\<close> followed by the call itself, either of which may
  reject. The call is logged whether or not it fails.
\<close>

definition chain_fails :: "world \<Rightarrow> bool" where
  "chain_fails s = chain_down s (length (chain_log s))"

definition chain_called :: "chain_call \<Rightarrow> world \<Rightarrow> world" where
  "chain_called c s = s\<lparr>chain_log := chain_log s @ [c]\<rparr>"

definition getUserPoints :: "address \<Rightarrow> world \<Rightarrow> (error + jsval) \<times> world" where
  "getUserPoints userAddress s =
     (let cacheKey = generateKey USER_POINTS userAddress;
          (cachedPoints, s1) = getCachedData cacheKey s
      in case cachedPoints of
           Some v \<Rightarrow> (Inr v, s1)
         | None \<Rightarrow>
             let s2 = chain_called (CallGetUserPoints userAddress) s1
             in if chain_fails s1 then (Inl (ChainCallFailed (CallGetUserPoints userAddress)), s2)
                else let pointsValue = Number_of (ledger_userPoints (ledger s2) userAddress);
                         (_, s3) = cacheData cacheKey (JNum pointsValue) DEFAULT_EXPIRY s2
                     in (Inr (JNum pointsValue), s3))"

definition getNFTMetadata :: "address \<Rightarrow> world \<Rightarrow> (error + jsval) \<times> world" where
  "getNFTMetadata userAddress s =
     (let cacheKey = generateKey NFT_METADATA userAddress;
          (cachedMetadata, s1) = getCachedData cacheKey s
      in case cachedMetadata of
           Some v \<Rightarrow> (Inr v, s1)
         | None \<Rightarrow>
             let s2 = chain_called (CallGetNFTMetadata userAddress) s1
             in if chain_fails s1 then (Inl (ChainCallFailed (CallGetNFTMetadata userAddress)), s2)
                else let metadata = ledger_nftMetadata (ledger s2) userAddress;
                         transformedMetadata =
                           \<lparr>nft_tokenId = Number_of (nft_tokenId metadata),
                            nft_metadataURI = nft_metadataURI metadata,
                            nft_points = Number_of (nft_points metadata),
                            nft_tier = nft_tier metadata,
                            nft_expiryTime = Number_of (nft_expiryTime metadata),
                            nft_exists = nft_exists metadata\<rparr>;
                         (_, s3) = cacheData cacheKey (JNft transformedMetadata) DEFAULT_EXPIRY s2
                     in (Inr (JNft transformedMetadata), s3))"

definition getFreeWashStatus :: "address \<Rightarrow> world \<Rightarrow> (error + jsval) \<times> world" where
  "getFreeWashStatus userAddress s =
     (let cacheKey = generateKey FREE_WASH_STATUS userAddress;
          (cachedStatus, s1) = getCachedData cacheKey s
      in case cachedStatus of
           Some v \<Rightarrow> (Inr v, s1)
         | None \<Rightarrow>
             let s2 = chain_called (CallGetFreeWashStatus userAddress) s1
             in if chain_fails s1 then (Inl (ChainCallFailed (CallGetFreeWashStatus userAddress)), s2)
                else let status = ledger_freeWashStatus (ledger s2) userAddress;
                         transformedStatus =
                           \<lparr>fw_available = fw_available status,
                            fw_expiryTime = Number_of (fw_expiryTime status),
                            fw_used = fw_used status\<rparr>;
                         (_, s3) = cacheData cacheKey (JFreeWash transformedStatus) DEFAULT_EXPIRY s2
                     in (Inr (JFreeWash transformedStatus), s3))"

text \<open>
  \<^verbatim>\<open>recordTransaction\<close>: the contract call, then the three invalidations, then the
  result \<^verbatim>\<open>{success: true, txHash}\<close>. A rejected call skips to the catch, which logs
  and rethrows; it is taken to have left the ledger as it was.
\<close>

record tx_result =
  success :: bool
  txHash :: string

definition recordTransaction :: "address \<Rightarrow> nat \<Rightarrow> world \<Rightarrow> (error + tx_result) \<times> world" where
  "recordTransaction userAddress timestamp s =
     (let timestampInSeconds = timestamp div 1000;
          call = CallRecordTransaction userAddress timestampInSeconds;
          s1 = chain_called call s
      in if chain_fails s then (Inl (ChainCallFailed call), s1)
         else let (ledger', hash) = contract_recordTransaction s1 userAddress timestampInSeconds (ledger s1);
                  s2 = s1\<lparr>ledger := ledger'\<rparr>;
                  (_, s3) = invalidateCache (generateKey USER_POINTS userAddress) s2;
                  (_, s4) = invalidateCache (generateKey FREE_WASH_STATUS userAddress) s3;
                  (_, s5) = invalidateCache (generateKey NFT_METADATA userAddress) s4
              in (Inr \<lparr>success = True, txHash = hash\<rparr>, s5))"

text \<open>
  \<^verbatim>\<open>generateEIP712Signature\<close> (config/blockchain.js): fetches the contract and has its
  encoder encode the request; what the encoder returns is the world's \<open>encoder\<close>.
\<close>

definition generateEIP712Signature :: "address \<Rightarrow> int \<Rightarrow> nat \<Rightarrow> world \<Rightarrow> (error + string) \<times> world" where
  "generateEIP712Signature userAddress packageType nonce s =
     (let call = CallEncodeSignature userAddress packageType nonce;
          s1 = chain_called call s
      in if chain_fails s then (Inl (ChainCallFailed call), s1)
         else (Inr (encoder s1 userAddress packageType nonce), s1))"

text \<open>
  \<^verbatim>\<open>signRedeemPackage\<close>. \<open>requiredPoints\<close> is its switch statement; \<open>js_less\<close> is
  \<^verbatim>\<open>points < requiredPoints\<close>, which is false when \<^verbatim>\<open>points\<close> is not a number.
\<close>

definition requiredPoints :: "int \<Rightarrow> error + nat" where
  "requiredPoints packageType =
     (if packageType = 1 then Inr 1000
      else if packageType = 2 then Inr 3000
      else if packageType = 3 then Inr 5000
      else Inl InvalidPackageType)"

definition js_less :: "jsval \<Rightarrow> nat \<Rightarrow> bool" where
  "js_less v k = (case v of JNum n \<Rightarrow> n < k | _ \<Rightarrow> False)"

definition signRedeemPackage :: "address \<Rightarrow> int \<Rightarrow> nat \<Rightarrow> world \<Rightarrow> (error + string) \<times> world" where
  "signRedeemPackage userAddress packageType nonce s =
     (case getUserPoints userAddress s of
        (Inl e, s1) \<Rightarrow> (Inl e, s1)
      | (Inr points, s1) \<Rightarrow>
          (case requiredPoints packageType of
             Inl e \<Rightarrow> (Inl e, s1)
           | Inr required \<Rightarrow>
               if js_less points required then (Inl (InsufficientPoints required points), s1)
               else generateEIP712Signature userAddress packageType nonce s1))"

section \<open>HTTP responses\<close>

text \<open>
  The JSON bodies of the two handlers modelled, with the status code beside them. A field
  whose JavaScript value is \<^verbatim>\<open>undefined\<close> is \<open>None\<close>. An error body holds the
  \<^verbatim>\<open>error\<close> title, the fixed part of \<^verbatim>\<open>message\<close> and the error whose message is
  appended to it, if any.
\<close>

datatype body =
    FreeWashBody "bool option" "nat option" "bool option"
  | RecordedBody string jsval string
  | ErrorBody string string "error option"

type_synonym response = "nat \<times> body"

section \<open>Free-wash status (controllers/blockchainController.js)\<close>

text \<open>
  \<^verbatim>\<open>getFreeWashStatusHandler\<close> answers
  \<^verbatim>\<open>{active: status.available && !status.used, expiryTime, used}\<close>.
\<close>

definition getFreeWashStatusHandler :: "address \<Rightarrow> world \<Rightarrow> response \<times> world" where
  "getFreeWashStatusHandler userAddress s =
     (case getFreeWashStatus userAddress s of
        (Inl e, s1) \<Rightarrow>
          ((500, ErrorBody ''Blockchain Error'' ''Failed to get free wash status'' None), s1)
      | (Inr status, s1) \<Rightarrow>
          ((200,
            case status of
              JFreeWash f \<Rightarrow>
                FreeWashBody (Some (fw_available f \<and> \<not> fw_used f)) (Some (fw_expiryTime f)) (Some (fw_used f))
            | JNft m \<Rightarrow> FreeWashBody None (Some (nft_expiryTime m)) None
            | JNum n \<Rightarrow> FreeWashBody None None None), s1))"

section \<open>Notifier (services/emailService.js)\<close>

text \<open>
  \<^verbatim>\<open>sendEmail\<close> catches whatever SES throws and returns \<^verbatim>\<open>false\<close>; the log keeps each
  attempt with its outcome.
\<close>

definition sendEmail :: "mail \<Rightarrow> world \<Rightarrow> bool \<times> world" where
  "sendEmail m s =
     (let sent = \<not> mail_down s (length (mail_log s))
      in (sent, s\<lparr>mail_log := mail_log s @ [(m, sent)]\<rparr>))"

definition sendTierUpgradeNotification :: "address \<Rightarrow> jsval \<Rightarrow> string \<Rightarrow> world \<Rightarrow> bool \<times> world" where
  "sendTierUpgradeNotification userAddress points newTier s =
     sendEmail (TierUpgradeMail userAddress points newTier) s"

definition sendFreeWashActivatedNotification :: "string \<Rightarrow> string \<Rightarrow> world \<Rightarrow> bool \<times> world" where
  "sendFreeWashActivatedNotification email date s =
     sendEmail (FreeWashActivatedMail email date) s"

section \<open>Transaction orchestrator (controllers/transactionController.js)\<close>

text \<open>
  The MongoDB session of one request: documents saved with the session are staged, and
  reach the collection when the session commits.
\<close>

datatype session_state = InProgress | Committed | Aborted

record session =
  staged :: "transaction option"
  state :: session_state

definition startTransaction :: session where
  "startTransaction = \<lparr>staged = None, state = InProgress\<rparr>"

definition save :: "transaction \<Rightarrow> session \<Rightarrow> session" where
  "save t ses = ses\<lparr>staged := Some t\<rparr>"

definition commitTransaction :: "session \<Rightarrow> world \<Rightarrow> session \<times> world" where
  "commitTransaction ses s =
     (ses\<lparr>staged := None, state := Committed\<rparr>,
      s\<lparr>transactions := transactions s @ (case staged ses of None \<Rightarrow> [] | Some t \<Rightarrow> [t])\<rparr>)"

definition abortTransaction :: "session \<Rightarrow> session" where
  "abortTransaction ses = ses\<lparr>staged := None, state := Aborted\<rparr>"

definition emit :: "event \<Rightarrow> world \<Rightarrow> world" where
  "emit e s = s\<lparr>emitted := emitted s @ [e]\<rparr>"

record request =
  req_userAddress :: address
  req_date :: string
  req_vehicleType :: string
  req_serviceType :: string
  req_price :: nat

text \<open>
  The Transaction and User schemas declare \<^verbatim>\<open>userAddress\<close> with
  \<^verbatim>\<open>lowercase: true, trim: true\<close>: Mongoose passes the value through
  \<^verbatim>\<open>trim()\<close> and \<^verbatim>\<open>toLowerCase()\<close> when a document is built and when a query
  filter is cast. Strings are 8-bit here: the letters lower-cased are A to Z, the
  white space trimmed is the ASCII white space and the no-break space.
\<close>

definition toLowerCase :: "string \<Rightarrow> string" where
  "toLowerCase str =
     map (\<lambda>c. case map_of (zip ''ABCDEFGHIJKLMNOPQRSTUVWXYZ'' ''abcdefghijklmnopqrstuvwxyz'') c of
                 None \<Rightarrow> c
               | Some l \<Rightarrow> l) str"

definition isSpace :: "char \<Rightarrow> bool" where
  "isSpace c = (c \<in> set [CHR '' '', CHR 0x09, CHR 0x0A, CHR 0x0B, CHR 0x0C, CHR 0x0D, CHR 0xA0])"

definition trim :: "string \<Rightarrow> string" where
  "trim str = rev (dropWhile isSpace (rev (dropWhile isSpace str)))"

text \<open>
  The validators of the Transaction schema, run by \<^verbatim>\<open>save\<close>:
  \<^verbatim>\<open>match: /^0x[a-fA-F0-9]{40}$/\<close> on the address, \<^verbatim>\<open>/^\d{4}-\d{2}-\d{2}$/\<close> on the
  date, the two enumerations; \<^verbatim>\<open>min: 0\<close> on the price holds of every natural.
\<close>

definition isHexDigit :: "char \<Rightarrow> bool" where
  "isHexDigit c = (c \<in> set ''0123456789abcdefABCDEF'')"

definition isDigit :: "char \<Rightarrow> bool" where
  "isDigit c = (c \<in> set ''0123456789'')"

definition matchesAddress :: "string \<Rightarrow> bool" where
  "matchesAddress str =
     (length str = 42 \<and> take 2 str = ''0x'' \<and> list_all isHexDigit (drop 2 str))"

definition matchesIsoDate :: "string \<Rightarrow> bool" where
  "matchesIsoDate str =
     (length str = 10 \<and> list_all isDigit (take 4 str)
      \<and> take 1 (drop 4 str) = ''-'' \<and> list_all isDigit (take 2 (drop 5 str))
      \<and> take 1 (drop 7 str) = ''-'' \<and> list_all isDigit (drop 8 str))"

definition vehicleTypes :: "string list" where
  "vehicleTypes =
     [''Motor Kecil'', ''Motor Sedang'', ''Motor Besar'',
      ''Mobil Kecil'', ''Mobil Sedang'', ''Mobil Besar'']"

definition serviceTypes :: "string list" where
  "serviceTypes = [''Reguler'', ''Premium'', ''Body Only'']"

definition validateTransaction :: "transaction \<Rightarrow> bool" where
  "validateTransaction t =
     (matchesAddress (tx_userAddress t) \<and> matchesIsoDate (tx_date t)
      \<and> tx_vehicleType t \<in> set vehicleTypes \<and> tx_serviceType t \<in> set serviceTypes)"

text \<open>
  \<^verbatim>\<open>new Transaction({...})\<close> as the handler calls it: the setters run on the address,
  \<^verbatim>\<open>createdAt\<close> takes its default \<^verbatim>\<open>Date.now\<close>.
\<close>

definition newTransaction :: "request \<Rightarrow> nat \<Rightarrow> transaction" where
  "newTransaction req now =
     \<lparr>tx_userAddress = toLowerCase (trim (req_userAddress req)), tx_date = req_date req,
      tx_vehicleType = req_vehicleType req, tx_serviceType = req_serviceType req,
      tx_price = req_price req, tx_recordedOnChain = False,
      tx_blockchainTxHash = None, tx_createdAt = now\<rparr>"

text \<open>
  The inner catch of the handler: abort the session, answer 500 with the error. The outer
  catch, reached when \<^verbatim>\<open>save\<close> refuses the document: abort the session, answer 500.
\<close>

definition blockchain_failure :: "error \<Rightarrow> session \<Rightarrow> response \<times> session" where
  "blockchain_failure blockchainError ses =
     ((500, ErrorBody ''Blockchain Error'' ''Failed to record transaction on blockchain: ''
              (Some blockchainError)),
      abortTransaction ses)"

definition server_failure :: "session \<Rightarrow> response \<times> session" where
  "server_failure ses =
     ((500, ErrorBody ''Internal Server Error'' ''Failed to record transaction'' None),
      abortTransaction ses)"

text \<open>
  \<^verbatim>\<open>recordTransactionHandler\<close>, returning the response and the session as the handler
  leaves it. The user is looked up, and the record stored, under the address as the
  schemas normalise it; the gateway is called with the address as the request spells
  it. \<^verbatim>\<open>determineTierByPoints(points)\<close> on a value that is not a number takes the
  last branch, since every comparison is false; \<^verbatim>\<open>nftMetadata.tier || 'Bronze'\<close> is
  \<^verbatim>\<open>'Bronze'\<close> when the field is missing or the empty string.
\<close>

definition recordTransactionHandler :: "request \<Rightarrow> world \<Rightarrow> (response \<times> session) \<times> world" where
  "recordTransactionHandler req s =
     (let ses = startTransaction;
          userAddress = req_userAddress req
      in (case users s (toLowerCase (trim userAddress)) of
            None \<Rightarrow>
              (((404, ErrorBody ''User Not Found'' ''User with this address does not exist'' None),
                abortTransaction ses), s)
          | Some user \<Rightarrow>
              (let currentTimestamp = clock s;
                   transaction = newTransaction req currentTimestamp
               in if \<not> validateTransaction transaction then (server_failure ses, s)
                  else
                  (let ses1 = save transaction ses
                   in (case recordTransaction userAddress currentTimestamp s of
                     (Inl blockchainError, s1) \<Rightarrow> (blockchain_failure blockchainError ses1, s1)
                   | (Inr result, s1) \<Rightarrow>
                       (let transaction' =
                              transaction\<lparr>tx_recordedOnChain := True,
                                          tx_blockchainTxHash := Some (txHash result)\<rparr>;
                            ses2 = save transaction' ses1;
                            (_, s2) = sendFreeWashActivatedNotification (user_email user) (req_date req) s1
                        in (case getUserPoints userAddress s2 of
                              (Inl blockchainError, s3) \<Rightarrow> (blockchain_failure blockchainError ses2, s3)
                            | (Inr points, s3) \<Rightarrow>
                                (let newTier =
                                       (case points of
                                          JNum n \<Rightarrow> determineTierByPoints n
                                        | _ \<Rightarrow> ''Bronze'')
                                 in (case getNFTMetadata userAddress s3 of
                                       (Inl blockchainError, s4) \<Rightarrow>
                                         (blockchain_failure blockchainError ses2, s4)
                                     | (Inr nftMetadata, s4) \<Rightarrow>
                                         (let currentTier =
                                                (case nftMetadata of
                                                   JNft m \<Rightarrow> (if nft_tier m = [] then ''Bronze'' else nft_tier m)
                                                 | _ \<Rightarrow> ''Bronze'');
                                              s5 = (if newTier \<noteq> currentTier
                                                    then snd (sendTierUpgradeNotification userAddress points newTier s4)
                                                    else s4);
                                              (ses3, s6) = commitTransaction ses2 s5;
                                              s7 = (if io s6
                                                    then (let s6a = emit (TransactionRecorded userAddress (req_date req)
                                                                      (req_vehicleType req) (req_serviceType req) points) s6
                                                          in (if newTier \<noteq> currentTier
                                                              then emit (TierUpgraded userAddress currentTier newTier points) s6a
                                                              else s6a))
                                                    else s6)
                                          in (((200, RecordedBody (txHash result) points newTier), ses3), s7)))))))))))"

section \<open>A concrete world for the closed examples\<close>

text \<open>
  One registered user with 950 points and a Bronze NFT, every service answering; \<open>ALICE\<close>
  is her address spelt with upper-case digits. The contract of the examples credits 60
  points and grants a one-day coupon when the user holds no coupon, and changes nothing
  otherwise. \<open>always\<close> and \<open>never\<close> are the schedules of a service that fails every
  request, or none.
\<close>

definition alice :: address where
  "alice = ''0x1234567890abcdef1234567890abcdef12345678''"

definition ALICE :: address where
  "ALICE = ''0x1234567890ABCDEF1234567890ABCDEF12345678''"

definition always :: "nat \<Rightarrow> bool" where
  "always n = True"

definition never :: "nat \<Rightarrow> bool" where
  "never n = False"

definition demo_nft :: nft_metadata where
  "demo_nft =
     \<lparr>nft_tokenId = 1, nft_metadataURI = ''ipfs://bronze'', nft_points = 950,
      nft_tier = ''Bronze'', nft_expiryTime = 0, nft_exists = True\<rparr>"

definition demo_ledger :: chain where
  "demo_ledger =
     \<lparr>ledger_userPoints = (\<lambda>a. 950),
      ledger_nftMetadata = (\<lambda>a. demo_nft),
      ledger_freeWashStatus = (\<lambda>a. \<lparr>fw_available = False, fw_expiryTime = 0, fw_used = False\<rparr>)\<rparr>"

definition demo_contract :: "address \<Rightarrow> nat \<Rightarrow> chain \<Rightarrow> chain \<times> string" where
  "demo_contract a t c =
     (if fw_available (ledger_freeWashStatus c a) then (c, ''0xtx'')
      else (c\<lparr>ledger_userPoints := (ledger_userPoints c)(a := ledger_userPoints c a + 60),
              ledger_freeWashStatus := (ledger_freeWashStatus c)
                (a := \<lparr>fw_available = True, fw_expiryTime = t + 86400, fw_used = False\<rparr>)\<rparr>,
            ''0xtx''))"

definition demo_encoder :: "address \<Rightarrow> int \<Rightarrow> nat \<Rightarrow> string" where
  "demo_encoder a packageType nonce = ''0xsignature''"

definition demo_world :: world where
  "demo_world =
     \<lparr>redis_data = Map.empty, redis_log = [], redis_down = never,
      clock = 1700000000000,
      ledger = demo_ledger, chain_log = [], chain_down = never,
      contract_recordTransaction = demo_contract, encoder = demo_encoder,
      users = [alice \<mapsto> \<lparr>user_email = ''alice@example.org''\<rparr>],
      transactions = [], mail_log = [], mail_down = never,
      io = True, emitted = []\<rparr>"

definition demo_request :: request where
  "demo_request =
     \<lparr>req_userAddress = alice, req_date = ''2023-11-14'', req_vehicleType = ''Mobil Kecil'',
      req_serviceType = ''Reguler'', req_price = 50000\<rparr>"

definition upper_request :: request where
  "upper_request = demo_request\<lparr>req_userAddress := ALICE\<rparr>"

text \<open>
  Variants: the three keys of the user cached and not yet expired; the same with Redis
  failing every command; a balance beyond \<open>2 ^ 53\<close>, with Redis answering and with Redis
  failing every command; a coupon that expired long ago.
\<close>

definition cached_world :: world where
  "cached_world =
     demo_world\<lparr>redis_data :=
       [generateKey USER_POINTS alice \<mapsto> (JNum 950, 1700000600000),
        generateKey FREE_WASH_STATUS alice \<mapsto>
          (JFreeWash \<lparr>fw_available = False, fw_expiryTime = 0, fw_used = False\<rparr>, 1700000600000),
        generateKey NFT_METADATA alice \<mapsto> (JNft demo_nft, 1700000600000)]\<rparr>"

definition outage_world :: world where
  "outage_world = cached_world\<lparr>redis_down := always\<rparr>"

definition whale_world :: world where
  "whale_world =
     demo_world\<lparr>ledger := demo_ledger\<lparr>ledger_userPoints := (\<lambda>a. 9007199254740993)\<rparr>\<rparr>"

definition whale_outage_world :: world where
  "whale_outage_world = whale_world\<lparr>redis_down := always\<rparr>"

definition expired_coupon_world :: world where
  "expired_coupon_world =
     demo_world\<lparr>ledger := demo_ledger\<lparr>ledger_freeWashStatus :=
       (\<lambda>a. \<lparr>fw_available = True, fw_expiryTime = 1000, fw_used = False\<rparr>)\<rparr>\<rparr>"

text \<open>\<open>fails_at k\<close> is the schedule of a service whose \<open>k\<close>-th request alone fails.\<close>

definition fails_at :: "nat \<Rightarrow> nat \<Rightarrow> bool" where
  "fails_at k n = (n = k)"

text \<open>The ledger answers the write and then rejects the read that follows it.\<close>

definition read_outage_world :: world where
  "read_outage_world = demo_world\<lparr>chain_down := fails_at 1\<rparr>"

section \<open>Proof tools\<close>

declare bitlen.simps [simp del]

lemmas cache_defs = cacheData_def getCachedData_def invalidateCache_def redis_fails_def
  redis_lookup_def chain_fails_def chain_called_def

lemmas key_defs = generateKey_def USER_POINTS_def FREE_WASH_STATUS_def NFT_METADATA_def

lemmas gateway_defs = recordTransaction_def getUserPoints_def getNFTMetadata_def
  getFreeWashStatus_def

lemmas handler_defs = recordTransactionHandler_def startTransaction_def save_def
  commitTransaction_def abortTransaction_def emit_def blockchain_failure_def server_failure_def
  sendEmail_def sendTierUpgradeNotification_def sendFreeWashActivatedNotification_def

lemmas demo_defs = demo_world_def cached_world_def outage_world_def whale_world_def
  whale_outage_world_def expired_coupon_world_def read_outage_world_def demo_ledger_def
  demo_contract_def demo_nft_def demo_encoder_def always_def never_def fails_at_def

text \<open>A number below \<open>2 ^ k\<close> has at most \<open>k\<close> binary digits, so \<open>Number_of\<close> leaves the safe integers alone.\<close>

lemma bitlen_bound: "n < 2 ^ k \<Longrightarrow> bitlen n \<le> k"
proof (induction k arbitrary: n)
  case 0
  then show ?case by (simp add: bitlen.simps)
next
  case (Suc k)
  show ?case
  proof (cases "n = 0")
    case True
    then show ?thesis by (simp add: bitlen.simps)
  next
    case False
    from Suc.prems have "n div 2 < 2 ^ k" by simp
    then have "bitlen (n div 2) \<le> k" by (rule Suc.IH)
    with False show ?thesis by (subst bitlen.simps) simp
  qed
qed

lemma Number_of_safe: "n \<le> MAX_SAFE_INTEGER \<Longrightarrow> Number_of n = n"
proof -
  assume "n \<le> MAX_SAFE_INTEGER"
  then have "n < 2 ^ 53" by (simp add: MAX_SAFE_INTEGER_def)
  then have "bitlen n \<le> 53" by (rule bitlen_bound)
  then show ?thesis by (simp add: Number_of_def)
qed

text \<open>
  The address of the examples is as the schemas store it, its upper-case spelling is
  stored as the same address, and the two requests of the examples pass the validators.
\<close>

lemma alice_normal: "toLowerCase (trim alice) = alice"
  by (simp add: alice_def toLowerCase_def trim_def isSpace_def)

lemma ALICE_normal: "toLowerCase (trim ALICE) = alice"
  by (simp add: alice_def ALICE_def toLowerCase_def trim_def isSpace_def)

lemma alice_matches: "matchesAddress alice"
  by (simp add: alice_def matchesAddress_def isHexDigit_def)

lemma request_fields:
  "req_userAddress demo_request = alice"
  "req_userAddress upper_request = ALICE"
  "req_date demo_request = ''2023-11-14''"
  "req_date upper_request = ''2023-11-14''"
  "req_vehicleType demo_request = ''Mobil Kecil''"
  "req_serviceType demo_request = ''Reguler''"
  by (simp_all add: demo_request_def upper_request_def)

lemma demo_request_valid:
  "validateTransaction (newTransaction demo_request now)"
  "validateTransaction (newTransaction upper_request now)"
  by (simp_all add: validateTransaction_def newTransaction_def demo_request_def upper_request_def
      alice_normal ALICE_normal alice_matches matchesIsoDate_def isDigit_def vehicleTypes_def
      serviceTypes_def)

lemmas run_defs = handler_defs gateway_defs cache_defs key_defs demo_defs request_fields
  alice_normal ALICE_normal demo_request_valid Let_def DEFAULT_EXPIRY_def Number_of_def
  bitlen.simps determineTierByPoints_def

text \<open>
  What each operation leaves alone, and that a gateway call whose contract call is not
  rejected returns a value.
\<close>

lemma recordTransaction_frame:
  "transactions (snd (recordTransaction a t s)) = transactions s"
  "mail_log (snd (recordTransaction a t s)) = mail_log s"
  "mail_down (snd (recordTransaction a t s)) = mail_down s"
  "io (snd (recordTransaction a t s)) = io s"
  "emitted (snd (recordTransaction a t s)) = emitted s"
  by (simp_all add: recordTransaction_def cache_defs Let_def split: prod.splits)

lemma sendEmail_frame:
  "transactions (snd (sendEmail m s)) = transactions s"
  "io (snd (sendEmail m s)) = io s"
  "emitted (snd (sendEmail m s)) = emitted s"
  "mail_down (snd (sendEmail m s)) = mail_down s"
  "mail_log (snd (sendEmail m s)) = mail_log s @ [(m, \<not> mail_down s (length (mail_log s)))]"
  by (simp_all add: sendEmail_def Let_def)

lemma getUserPoints_frame:
  "transactions (snd (getUserPoints a s)) = transactions s"
  "mail_log (snd (getUserPoints a s)) = mail_log s"
  "mail_down (snd (getUserPoints a s)) = mail_down s"
  "io (snd (getUserPoints a s)) = io s"
  "emitted (snd (getUserPoints a s)) = emitted s"
  by (simp_all add: getUserPoints_def cache_defs Let_def split: prod.splits option.splits)

lemma getNFTMetadata_frame:
  "transactions (snd (getNFTMetadata a s)) = transactions s"
  "mail_log (snd (getNFTMetadata a s)) = mail_log s"
  "mail_down (snd (getNFTMetadata a s)) = mail_down s"
  "io (snd (getNFTMetadata a s)) = io s"
  "emitted (snd (getNFTMetadata a s)) = emitted s"
  by (simp_all add: getNFTMetadata_def cache_defs Let_def split: prod.splits option.splits)

lemmas frames = recordTransaction_frame sendEmail_frame getUserPoints_frame getNFTMetadata_frame

lemma chain_down_frame:
  "chain_down (snd (recordTransaction a t s)) = chain_down s"
  "chain_down (snd (sendEmail ml s)) = chain_down s"
  "chain_down (snd (getUserPoints a s)) = chain_down s"
  "chain_down (snd (getNFTMetadata a s)) = chain_down s"
  by (simp_all add: gateway_defs sendEmail_def cache_defs Let_def split: prod.splits option.splits)

lemma recordTransaction_ok:
  assumes "\<not> chain_fails s"
  shows "fst (recordTransaction a t s) =
           Inr \<lparr>success = True, txHash = snd (contract_recordTransaction s a (t div 1000) (ledger s))\<rparr>"
    and "ledger (snd (recordTransaction a t s)) =
           fst (contract_recordTransaction s a (t div 1000) (ledger s))"
  using assms by (simp_all add: recordTransaction_def cache_defs Let_def split: prod.splits)

lemma getUserPoints_ok:
  assumes "\<not> chain_fails s"
  shows "\<exists>v. fst (getUserPoints a s) = Inr v"
  using assms by (simp add: getUserPoints_def cache_defs Let_def split: prod.splits option.splits)

lemma getNFTMetadata_ok:
  assumes "\<not> chain_fails s"
  shows "\<exists>v. fst (getNFTMetadata a s) = Inr v"
  using assms by (simp add: getNFTMetadata_def cache_defs Let_def split: prod.splits option.splits)

text \<open>
  With every Redis command and contract call answered, the write leaves the points and NFT
  keys absent, and a read of an absent key returns what the ledger holds.
\<close>

lemma recordTransaction_up:
  assumes redis: "\<forall>n. \<not> redis_down s n"
    and chain: "\<forall>n. \<not> chain_down s n"
  shows "redis_data (snd (recordTransaction a t s)) (generateKey USER_POINTS a) = None"
    and "redis_data (snd (recordTransaction a t s)) (generateKey NFT_METADATA a) = None"
    and "redis_down (snd (recordTransaction a t s)) = redis_down s"
    and "chain_down (snd (recordTransaction a t s)) = chain_down s"
  using assms
  by (simp_all add: recordTransaction_def cache_defs key_defs Let_def split: prod.splits)

lemma sendEmail_services:
  "redis_data (snd (sendEmail m s)) = redis_data s"
  "redis_down (snd (sendEmail m s)) = redis_down s"
  "chain_down (snd (sendEmail m s)) = chain_down s"
  "ledger (snd (sendEmail m s)) = ledger s"
  by (simp_all add: sendEmail_def Let_def)

lemma getUserPoints_miss:
  assumes redis: "\<forall>n. \<not> redis_down s n"
    and chain: "\<forall>n. \<not> chain_down s n"
    and miss: "redis_data s (generateKey USER_POINTS a) = None"
  shows "fst (getUserPoints a s) = Inr (JNum (Number_of (ledger_userPoints (ledger s) a)))"
    and "redis_data (snd (getUserPoints a s)) (generateKey NFT_METADATA a) =
           redis_data s (generateKey NFT_METADATA a)"
    and "redis_down (snd (getUserPoints a s)) = redis_down s"
    and "chain_down (snd (getUserPoints a s)) = chain_down s"
    and "ledger (snd (getUserPoints a s)) = ledger s"
  using assms
  by (simp_all add: getUserPoints_def cache_defs key_defs Let_def)

lemma getNFTMetadata_miss:
  assumes redis: "\<forall>n. \<not> redis_down s n"
    and chain: "\<forall>n. \<not> chain_down s n"
    and miss: "redis_data s (generateKey NFT_METADATA a) = None"
  shows "fst (getNFTMetadata a s) =
           Inr (JNft
             \<lparr>nft_tokenId = Number_of (nft_tokenId (ledger_nftMetadata (ledger s) a)),
              nft_metadataURI = nft_metadataURI (ledger_nftMetadata (ledger s) a),
              nft_points = Number_of (nft_points (ledger_nftMetadata (ledger s) a)),
              nft_tier = nft_tier (ledger_nftMetadata (ledger s) a),
              nft_expiryTime = Number_of (nft_expiryTime (ledger_nftMetadata (ledger s) a)),
              nft_exists = nft_exists (ledger_nftMetadata (ledger s) a)\<rparr>)"
  using assms
  by (simp add: getNFTMetadata_def cache_defs key_defs Let_def)

section \<open>Tier engine: properties\<close>

text \<open>
  C5. For every non-negative integer point value \<open>p\<close>, the tier function returns Bronze
  iff \<open>0 \<le> p < 1000\<close>, Silver iff \<open>1000 \<le> p < 5000\<close> and Gold iff \<open>p \<ge> 5000\<close>; at the
  boundaries 999 is Bronze, 1000 and 4999 are Silver and 5000 is Gold. The function is a
  total function of its argument alone.
\<close>

theorem determineTierByPoints_intervals:
  "(determineTierByPoints p = ''Bronze'' \<longleftrightarrow> 0 \<le> p \<and> p < 1000) \<and>
   (determineTierByPoints p = ''Silver'' \<longleftrightarrow> 1000 \<le> p \<and> p < 5000) \<and>
   (determineTierByPoints p = ''Gold'' \<longleftrightarrow> p \<ge> 5000) \<and>
   determineTierByPoints 999 = ''Bronze'' \<and>
   determineTierByPoints 1000 = ''Silver'' \<and>
   determineTierByPoints 4999 = ''Silver'' \<and>
   determineTierByPoints 5000 = ''Gold''"
  by (simp add: determineTierByPoints_def)

section \<open>Ledger gateway: properties\<close>

text \<open>
  C1, as amended. When the contract call of \<open>recordTransaction\<close> is rejected, the error is
  returned, no Redis command is sent and neither the cache nor the ledger changes. When the
  call succeeds, success is returned with the receipt's hash only after exactly three
  Redis commands have been sent, the deletions of the user's points, free-wash and NFT
  keys in that order; each key whose deletion Redis carried out is absent afterwards, and
  no other key is touched. A deletion that Redis fails is absorbed by
  \<open>invalidateCache\<close>: the call still reports success.
\<close>

theorem recordTransaction_invalidation:
  "(chain_fails s \<longrightarrow>
      fst (recordTransaction a t s) = Inl (ChainCallFailed (CallRecordTransaction a (t div 1000)))
    \<and> redis_data (snd (recordTransaction a t s)) = redis_data s
    \<and> redis_log (snd (recordTransaction a t s)) = redis_log s
    \<and> ledger (snd (recordTransaction a t s)) = ledger s)
 \<and> (\<not> chain_fails s \<longrightarrow>
      fst (recordTransaction a t s) =
        Inr \<lparr>success = True, txHash = snd (contract_recordTransaction s a (t div 1000) (ledger s))\<rparr>
    \<and> ledger (snd (recordTransaction a t s)) = fst (contract_recordTransaction s a (t div 1000) (ledger s))
    \<and> redis_log (snd (recordTransaction a t s)) =
        redis_log s @ [DEL (generateKey USER_POINTS a), DEL (generateKey FREE_WASH_STATUS a),
                       DEL (generateKey NFT_METADATA a)]
    \<and> (\<not> redis_down s (length (redis_log s)) \<longrightarrow>
          redis_data (snd (recordTransaction a t s)) (generateKey USER_POINTS a) = None)
    \<and> (\<not> redis_down s (length (redis_log s) + 1) \<longrightarrow>
          redis_data (snd (recordTransaction a t s)) (generateKey FREE_WASH_STATUS a) = None)
    \<and> (\<not> redis_down s (length (redis_log s) + 2) \<longrightarrow>
          redis_data (snd (recordTransaction a t s)) (generateKey NFT_METADATA a) = None)
    \<and> (\<forall>k. k \<noteq> generateKey USER_POINTS a \<and> k \<noteq> generateKey FREE_WASH_STATUS a
            \<and> k \<noteq> generateKey NFT_METADATA a \<longrightarrow>
          redis_data (snd (recordTransaction a t s)) k = redis_data s k))"
  by (simp add: recordTransaction_def cache_defs key_defs Let_def split: prod.splits)

theorem recordTransaction_invalidation_witness:
  "fst (recordTransaction alice 1700000000000 cached_world) = Inr \<lparr>success = True, txHash = ''0xtx''\<rparr>
   \<and> redis_data (snd (recordTransaction alice 1700000000000 cached_world)) (generateKey USER_POINTS alice) = None
   \<and> redis_data (snd (recordTransaction alice 1700000000000 cached_world)) (generateKey FREE_WASH_STATUS alice) = None
   \<and> redis_data (snd (recordTransaction alice 1700000000000 cached_world)) (generateKey NFT_METADATA alice) = None
   \<and> fst (recordTransaction alice 1700000000000 (cached_world\<lparr>chain_down := always\<rparr>)) =
        Inl (ChainCallFailed (CallRecordTransaction alice 1700000000))
   \<and> redis_data (snd (recordTransaction alice 1700000000000 (cached_world\<lparr>chain_down := always\<rparr>))) =
        redis_data cached_world"
  using recordTransaction_invalidation [of cached_world alice 1700000000000]
    recordTransaction_invalidation [of "cached_world\<lparr>chain_down := always\<rparr>" alice 1700000000000]
  by (simp add: demo_defs chain_fails_def)

text \<open>
  C1 as stated fails when Redis is unreachable during the invalidation: the write succeeds
  on the ledger (1010 points), success is returned, and the points key still holds 950;
  once Redis answers again the next read is served that value.
\<close>

theorem recordTransaction_outage_counterexample:
  "fst (recordTransaction alice 1700000000000 outage_world) = Inr \<lparr>success = True, txHash = ''0xtx''\<rparr>
   \<and> ledger_userPoints (ledger (snd (recordTransaction alice 1700000000000 outage_world))) alice = 1010
   \<and> redis_data (snd (recordTransaction alice 1700000000000 outage_world)) (generateKey USER_POINTS alice)
       = Some (JNum 950, 1700000600000)
   \<and> fst (getUserPoints alice
        ((snd (recordTransaction alice 1700000000000 outage_world))\<lparr>redis_down := never\<rparr>)) = Inr (JNum 950)"
  by (simp add: recordTransaction_def getUserPoints_def cache_defs key_defs demo_defs Let_def)

text \<open>
  C6, as amended. On a cache miss answered by the contract, \<open>getUserPoints\<close> never fails
  on the size of the value: it returns \<open>Number_of\<close> of the ledger's figure, which is the
  figure itself up to \<open>MAX_SAFE_INTEGER\<close> and its rounding to 53 significant bits beyond,
  and that is the value written to the cache when the write goes through.
\<close>

theorem getUserPoints_coercion:
  assumes miss: "fst (getCachedData (generateKey USER_POINTS a) s) = None"
    and chain: "\<not> chain_fails s"
  shows "fst (getUserPoints a s) = Inr (JNum (Number_of (ledger_userPoints (ledger s) a)))
       \<and> (ledger_userPoints (ledger s) a \<le> MAX_SAFE_INTEGER \<longrightarrow>
            Number_of (ledger_userPoints (ledger s) a) = ledger_userPoints (ledger s) a)
       \<and> (\<not> redis_down s (Suc (length (redis_log s))) \<longrightarrow>
            redis_data (snd (getUserPoints a s)) (generateKey USER_POINTS a) =
              Some (JNum (Number_of (ledger_userPoints (ledger s) a)), clock s + DEFAULT_EXPIRY * 1000))"
  using assms
  by (auto simp add: getUserPoints_def cache_defs Let_def Number_of_safe split: prod.splits option.splits if_splits)

theorem getUserPoints_coercion_witness:
  "fst (getCachedData (generateKey USER_POINTS alice) demo_world) = None
   \<and> \<not> chain_fails demo_world
   \<and> fst (getUserPoints alice demo_world) = Inr (JNum 950)
   \<and> redis_data (snd (getUserPoints alice demo_world)) (generateKey USER_POINTS alice) =
        Some (JNum 950, 1700000600000)"
proof -
  have miss: "fst (getCachedData (generateKey USER_POINTS alice) demo_world) = None"
    by (simp add: cache_defs demo_defs Let_def)
  have chain: "\<not> chain_fails demo_world"
    by (simp add: demo_defs chain_fails_def)
  have safe: "ledger_userPoints (ledger demo_world) alice \<le> MAX_SAFE_INTEGER"
    by (simp add: demo_defs MAX_SAFE_INTEGER_def)
  have pts: "ledger_userPoints (ledger demo_world) alice = 950"
    by (simp add: demo_defs)
  have up: "\<not> redis_down demo_world (Suc (length (redis_log demo_world)))"
    by (simp add: demo_defs)
  have clk: "clock demo_world + DEFAULT_EXPIRY * 1000 = 1700000600000"
    by (simp add: demo_defs DEFAULT_EXPIRY_def)
  from getUserPoints_coercion [OF miss chain] safe pts up clk miss chain
  show ?thesis by simp
qed

text \<open>
  C6 as stated fails at \<open>2 ^ 53 + 1\<close>: no error is raised, and the even neighbour
  9007199254740992 is returned and cached.
\<close>

theorem getUserPoints_coercion_counterexample:
  "ledger_userPoints (ledger whale_world) alice = 9007199254740993
   \<and> fst (getUserPoints alice whale_world) = Inr (JNum 9007199254740992)
   \<and> redis_lookup (snd (getUserPoints alice whale_world)) (generateKey USER_POINTS alice) =
        Some (JNum 9007199254740992)"
  by (simp add: getUserPoints_def cache_defs key_defs demo_defs Let_def Number_of_def bitlen.simps
      DEFAULT_EXPIRY_def)

text \<open>
  C7. A call of \<open>getUserPoints\<close> that returns a value, followed at once by a second
  call (no write and no expiry in between), gives the same value twice, and the second
  call is served from the cache: it makes no contract call and leaves the ledger alone.
  The cache serves a hit only while Redis carries out its commands; a failing command is
  a forced miss, the subject of C8.
\<close>

theorem getUserPoints_twice:
  assumes up: "\<forall>n. \<not> redis_down s n"
    and first: "getUserPoints a s = (Inr v, s1)"
  shows "fst (getUserPoints a s1) = Inr v
       \<and> chain_log (snd (getUserPoints a s1)) = chain_log s1
       \<and> ledger (snd (getUserPoints a s1)) = ledger s1"
  using assms
  by (auto simp add: getUserPoints_def cache_defs Let_def DEFAULT_EXPIRY_def
      split: option.splits if_splits prod.splits)

theorem getUserPoints_twice_witness:
  "(\<forall>n. \<not> redis_down demo_world n)
   \<and> fst (getUserPoints alice demo_world) = Inr (JNum 950)
   \<and> chain_log (snd (getUserPoints alice demo_world)) = [CallGetUserPoints alice]
   \<and> fst (getUserPoints alice (snd (getUserPoints alice demo_world))) = Inr (JNum 950)
   \<and> chain_log (snd (getUserPoints alice (snd (getUserPoints alice demo_world)))) = [CallGetUserPoints alice]"
proof -
  have up: "\<forall>n. \<not> redis_down demo_world n"
    by (simp add: demo_defs)
  have fst1: "fst (getUserPoints alice demo_world) = Inr (JNum 950)"
    by (simp add: getUserPoints_def cache_defs key_defs demo_defs Let_def Number_of_def bitlen.simps)
  have log1: "chain_log (snd (getUserPoints alice demo_world)) = [CallGetUserPoints alice]"
    by (simp add: getUserPoints_def cache_defs key_defs demo_defs Let_def Number_of_def bitlen.simps)
  have first: "getUserPoints alice demo_world = (Inr (JNum 950), snd (getUserPoints alice demo_world))"
    using fst1 by (simp add: prod_eq_iff)
  from getUserPoints_twice [OF up first] up fst1 log1 show ?thesis by simp
qed

text \<open>
  C8, as amended. If every Redis command fails and the contract answers, \<open>getUserPoints\<close>
  returns a value, not an error: \<open>Number_of\<close> of the ledger's figure, which is the figure
  itself whenever that is at most \<open>MAX_SAFE_INTEGER\<close>. The failed cache read and write are
  absorbed in the cache layer, \<open>getCachedData\<close> answering null and \<open>cacheData\<close> false, and
  neither the cache nor the ledger changes.
\<close>

theorem getUserPoints_cache_unreachable:
  assumes down: "\<forall>n. redis_down s n"
    and chain: "\<not> chain_fails s"
  shows "fst (getUserPoints a s) = Inr (JNum (Number_of (ledger_userPoints (ledger s) a)))
       \<and> (ledger_userPoints (ledger s) a \<le> MAX_SAFE_INTEGER \<longrightarrow>
            fst (getUserPoints a s) = Inr (JNum (ledger_userPoints (ledger s) a)))
       \<and> redis_data (snd (getUserPoints a s)) = redis_data s
       \<and> ledger (snd (getUserPoints a s)) = ledger s
       \<and> fst (getCachedData k s) = None
       \<and> fst (cacheData k v expirySeconds s) = False"
  using assms by (simp add: getUserPoints_def cache_defs Let_def Number_of_safe)

theorem getUserPoints_cache_unreachable_witness:
  "(\<forall>n. redis_down outage_world n) \<and> \<not> chain_fails outage_world
   \<and> fst (getUserPoints alice outage_world) = Inr (JNum 950)
   \<and> redis_data (snd (getUserPoints alice outage_world)) = redis_data outage_world"
proof -
  have down: "\<forall>n. redis_down outage_world n"
    by (simp add: demo_defs)
  have chain: "\<not> chain_fails outage_world"
    by (simp add: demo_defs chain_fails_def)
  have safe: "ledger_userPoints (ledger outage_world) alice \<le> MAX_SAFE_INTEGER"
    by (simp add: demo_defs MAX_SAFE_INTEGER_def)
  have pts: "ledger_userPoints (ledger outage_world) alice = 950"
    by (simp add: demo_defs)
  from getUserPoints_cache_unreachable [OF down chain, of alice] safe pts down chain
  show ?thesis by (simp add: Number_of_safe)
qed

text \<open>
  C8 as stated fails beyond the safe range: with Redis failing every command and
  \<open>2 ^ 53 + 1\<close> points on the ledger, the value returned is 9007199254740992, not the
  ledger's.
\<close>

theorem getUserPoints_cache_unreachable_counterexample:
  "redis_down whale_outage_world = always
   \<and> ledger_userPoints (ledger whale_outage_world) alice = 9007199254740993
   \<and> fst (getUserPoints alice whale_outage_world) = Inr (JNum 9007199254740992)"
  by (simp add: getUserPoints_def cache_defs key_defs demo_defs Let_def Number_of_def bitlen.simps)

section \<open>Free-wash coupon: properties\<close>

text \<open>
  C2, as amended. Whenever the gateway returns a coupon, the handler reports it active iff
  it is available and not used, and passes the expiry time on beside it. In particular,
  when the cache has no live entry and the contract answers, the report is made from the
  ledger's coupon alone: no clock is compared with the expiry time.
\<close>

theorem getFreeWashStatusHandler_active:
  "(\<forall>f s1. getFreeWashStatus a s = (Inr (JFreeWash f), s1) \<longrightarrow>
      getFreeWashStatusHandler a s =
        ((200, FreeWashBody (Some (fw_available f \<and> \<not> fw_used f)) (Some (fw_expiryTime f))
                 (Some (fw_used f))), s1))
   \<and> (fst (getCachedData (generateKey FREE_WASH_STATUS a) s) = None \<and> \<not> chain_fails s \<longrightarrow>
        fst (getFreeWashStatusHandler a s) =
          (200, FreeWashBody
                  (Some (fw_available (ledger_freeWashStatus (ledger s) a)
                         \<and> \<not> fw_used (ledger_freeWashStatus (ledger s) a)))
                  (Some (Number_of (fw_expiryTime (ledger_freeWashStatus (ledger s) a))))
                  (Some (fw_used (ledger_freeWashStatus (ledger s) a)))))"
  by (auto simp add: getFreeWashStatusHandler_def getFreeWashStatus_def cache_defs Let_def
      split: prod.splits option.splits if_splits)

theorem getFreeWashStatusHandler_active_witness:
  "fst (getCachedData (generateKey FREE_WASH_STATUS alice) demo_world) = None
   \<and> \<not> chain_fails demo_world
   \<and> fst (getFreeWashStatusHandler alice demo_world) =
       (200, FreeWashBody (Some False) (Some 0) (Some False))"
proof -
  have miss: "fst (getCachedData (generateKey FREE_WASH_STATUS alice) demo_world) = None"
    by (simp add: cache_defs demo_defs Let_def)
  have chain: "\<not> chain_fails demo_world"
    by (simp add: demo_defs chain_fails_def)
  have coupon: "ledger_freeWashStatus (ledger demo_world) alice =
      \<lparr>fw_available = False, fw_expiryTime = 0, fw_used = False\<rparr>"
    by (simp add: demo_defs)
  have zero: "Number_of 0 = 0"
    by (simp add: Number_of_def bitlen.simps)
  from getFreeWashStatusHandler_active [of alice demo_world] miss chain coupon zero
  show ?thesis by simp
qed

text \<open>
  C2 as stated fails for a coupon that is available, unused and expired: it is reported
  active.
\<close>

theorem getFreeWashStatusHandler_expired_counterexample:
  "fw_expiryTime (ledger_freeWashStatus (ledger expired_coupon_world) alice) < clock expired_coupon_world div 1000
   \<and> fst (getFreeWashStatusHandler alice expired_coupon_world) =
       (200, FreeWashBody (Some True) (Some 1000) (Some False))"
  by (simp add: getFreeWashStatusHandler_def getFreeWashStatus_def cache_defs key_defs demo_defs
      Let_def Number_of_def bitlen.simps)

section \<open>Transaction orchestrator: properties\<close>

text \<open>
  C3, as amended. Take a request of a registered user whose record passes the validators
  and whose write the contract accepts. If the read of the points that follows is
  rejected, or the read of the NFT metadata after it, the handler answers 500
  "Blockchain Error" with that error, the session is aborted and the collection of
  transactions is as it was, although the contract accepted the write. If both reads return a
  value, the handler answers 200 with the receipt's hash, the points and their tier, the
  session is committed, and the record, under the normalised address and marked as
  recorded on chain with that hash, is appended to the collection: whatever the e-mails,
  the cache and the broadcast channel do.
\<close>

theorem recordTransactionHandler_confirmed:
  assumes user: "users s (toLowerCase (trim (req_userAddress req))) = Some u"
    and valid: "validateTransaction (newTransaction req (clock s))"
    and chainw: "recordTransaction (req_userAddress req) (clock s) s = (Inr r, s1)"
    and mail: "sendFreeWashActivatedNotification (user_email u) (req_date req) s1 = (b, s2)"
  shows
    "(\<forall>e s3. getUserPoints (req_userAddress req) s2 = (Inl e, s3) \<longrightarrow>
        recordTransactionHandler req s =
          (((500, ErrorBody ''Blockchain Error'' ''Failed to record transaction on blockchain: '' (Some e)),
            \<lparr>staged = None, state = Aborted\<rparr>), s3)
        \<and> transactions s3 = transactions s)
   \<and> (\<forall>p s3 e s4. getUserPoints (req_userAddress req) s2 = (Inr p, s3)
          \<and> getNFTMetadata (req_userAddress req) s3 = (Inl e, s4) \<longrightarrow>
        recordTransactionHandler req s =
          (((500, ErrorBody ''Blockchain Error'' ''Failed to record transaction on blockchain: '' (Some e)),
            \<lparr>staged = None, state = Aborted\<rparr>), s4)
        \<and> transactions s4 = transactions s)
   \<and> (\<forall>p s3 m s4. getUserPoints (req_userAddress req) s2 = (Inr p, s3)
          \<and> getNFTMetadata (req_userAddress req) s3 = (Inr m, s4) \<longrightarrow>
        fst (recordTransactionHandler req s) =
          ((200, RecordedBody (txHash r) p
                   (case p of JNum n \<Rightarrow> determineTierByPoints n | _ \<Rightarrow> ''Bronze'')),
           \<lparr>staged = None, state = Committed\<rparr>)
        \<and> transactions (snd (recordTransactionHandler req s)) =
            transactions s @
              [(newTransaction req (clock s))
                 \<lparr>tx_recordedOnChain := True, tx_blockchainTxHash := Some (txHash r)\<rparr>])"
proof -
  let ?a = "req_userAddress req"
  have s1: "s1 = snd (recordTransaction ?a (clock s) s)"
    using chainw by simp
  have s2: "s2 = snd (sendEmail (FreeWashActivatedMail (user_email u) (req_date req)) s1)"
    using mail by (simp add: sendFreeWashActivatedNotification_def)
  have tr2: "transactions s2 = transactions s"
    by (simp add: s2 s1 frames)
  have rejected_points: "recordTransactionHandler req s =
          (((500, ErrorBody ''Blockchain Error'' ''Failed to record transaction on blockchain: '' (Some e)),
            \<lparr>staged = None, state = Aborted\<rparr>), s3)
        \<and> transactions s3 = transactions s"
    if gp: "getUserPoints ?a s2 = (Inl e, s3)" for e s3
  proof -
    have "s3 = snd (getUserPoints ?a s2)"
      using gp by simp
    then have "transactions s3 = transactions s"
      by (simp add: frames tr2)
    then show ?thesis
      using user valid chainw mail gp
      by (simp add: recordTransactionHandler_def startTransaction_def save_def
          blockchain_failure_def abortTransaction_def Let_def)
  qed
  have rejected_nft: "recordTransactionHandler req s =
          (((500, ErrorBody ''Blockchain Error'' ''Failed to record transaction on blockchain: '' (Some e)),
            \<lparr>staged = None, state = Aborted\<rparr>), s4)
        \<and> transactions s4 = transactions s"
    if gp: "getUserPoints ?a s2 = (Inr p, s3)" and gn: "getNFTMetadata ?a s3 = (Inl e, s4)"
    for p s3 e s4
  proof -
    have "s3 = snd (getUserPoints ?a s2)" "s4 = snd (getNFTMetadata ?a s3)"
      using gp gn by simp_all
    then have "transactions s4 = transactions s"
      by (simp add: frames tr2)
    then show ?thesis
      using user valid chainw mail gp gn
      by (simp add: recordTransactionHandler_def startTransaction_def save_def
          blockchain_failure_def abortTransaction_def Let_def)
  qed
  have committed: "fst (recordTransactionHandler req s) =
          ((200, RecordedBody (txHash r) p
                   (case p of JNum n \<Rightarrow> determineTierByPoints n | _ \<Rightarrow> ''Bronze'')),
           \<lparr>staged = None, state = Committed\<rparr>)
        \<and> transactions (snd (recordTransactionHandler req s)) =
            transactions s @
              [(newTransaction req (clock s))
                 \<lparr>tx_recordedOnChain := True, tx_blockchainTxHash := Some (txHash r)\<rparr>]"
    if gp: "getUserPoints ?a s2 = (Inr p, s3)" and gn: "getNFTMetadata ?a s3 = (Inr m, s4)"
    for p s3 m s4
  proof -
    have "s3 = snd (getUserPoints ?a s2)" "s4 = snd (getNFTMetadata ?a s3)"
      using gp gn by simp_all
    then have "transactions s4 = transactions s"
      by (simp add: frames tr2)
    then show ?thesis
      using user valid chainw mail gp gn
      by (simp add: recordTransactionHandler_def startTransaction_def save_def
          commitTransaction_def emit_def sendTierUpgradeNotification_def sendEmail_def Let_def)
  qed
  from rejected_points rejected_nft committed show ?thesis
    by blast
qed

theorem recordTransactionHandler_confirmed_witness:
  "fst (fst (fst (recordTransactionHandler upper_request (demo_world\<lparr>mail_down := always\<rparr>)))) = 200
   \<and> snd (fst (recordTransactionHandler upper_request (demo_world\<lparr>mail_down := always\<rparr>))) =
        \<lparr>staged = None, state = Committed\<rparr>
   \<and> map tx_userAddress
        (transactions (snd (recordTransactionHandler upper_request (demo_world\<lparr>mail_down := always\<rparr>)))) =
        [alice]
   \<and> map tx_blockchainTxHash
        (transactions (snd (recordTransactionHandler upper_request (demo_world\<lparr>mail_down := always\<rparr>)))) =
        [Some ''0xtx'']"
proof -
  let ?w = "demo_world\<lparr>mail_down := always\<rparr>"
  let ?u = "\<lparr>user_email = ''alice@example.org''\<rparr>"
  have user: "users ?w (toLowerCase (trim (req_userAddress upper_request))) = Some ?u"
    by (simp add: request_fields ALICE_normal demo_defs)
  have valid: "validateTransaction (newTransaction upper_request (clock ?w))"
    by (rule demo_request_valid)
  have never: "\<not> chain_fails s" if "chain_down s = chain_down ?w" for s
    using that by (simp add: chain_fails_def demo_defs)
  obtain r s1 where chainw: "recordTransaction (req_userAddress upper_request) (clock ?w) ?w = (Inr r, s1)"
    using recordTransaction_ok(1) [OF never [OF refl], of "req_userAddress upper_request" "clock ?w"]
    by (cases "recordTransaction (req_userAddress upper_request) (clock ?w) ?w") simp
  have s1: "s1 = snd (recordTransaction (req_userAddress upper_request) (clock ?w) ?w)"
    using chainw by simp
  have "r = \<lparr>success = True,
      txHash = snd (contract_recordTransaction ?w ALICE (clock ?w div 1000) (ledger ?w))\<rparr>"
    using recordTransaction_ok(1) [OF never [OF refl], of "req_userAddress upper_request" "clock ?w"] chainw
    by (simp add: request_fields)
  then have hash: "txHash r = ''0xtx''"
    by (simp add: demo_defs)
  obtain b s2 where mail: "sendFreeWashActivatedNotification (user_email ?u) (req_date upper_request) s1 = (b, s2)"
    by (cases "sendFreeWashActivatedNotification (user_email ?u) (req_date upper_request) s1")
  have s2: "s2 = snd (sendEmail (FreeWashActivatedMail (user_email ?u) (req_date upper_request)) s1)"
    using mail by (simp add: sendFreeWashActivatedNotification_def)
  have "\<not> chain_fails s2"
    by (rule never) (simp add: s2 s1 chain_down_frame)
  then obtain p s3 where pts: "getUserPoints (req_userAddress upper_request) s2 = (Inr p, s3)"
    using getUserPoints_ok [of s2 "req_userAddress upper_request"]
    by (cases "getUserPoints (req_userAddress upper_request) s2") auto
  have s3: "s3 = snd (getUserPoints (req_userAddress upper_request) s2)"
    using pts by simp
  have "\<not> chain_fails s3"
    by (rule never) (simp add: s3 s2 s1 chain_down_frame)
  then obtain m s4 where nft: "getNFTMetadata (req_userAddress upper_request) s3 = (Inr m, s4)"
    using getNFTMetadata_ok [of s3 "req_userAddress upper_request"]
    by (cases "getNFTMetadata (req_userAddress upper_request) s3") auto
  have empty: "transactions ?w = []"
    by (simp add: demo_defs)
  from recordTransactionHandler_confirmed [OF user valid chainw mail] pts nft
  have "fst (recordTransactionHandler upper_request ?w) =
          ((200, RecordedBody (txHash r) p
                   (case p of JNum n \<Rightarrow> determineTierByPoints n | _ \<Rightarrow> ''Bronze'')),
           \<lparr>staged = None, state = Committed\<rparr>)
        \<and> transactions (snd (recordTransactionHandler upper_request ?w)) =
            transactions ?w @
              [(newTransaction upper_request (clock ?w))
                 \<lparr>tx_recordedOnChain := True, tx_blockchainTxHash := Some (txHash r)\<rparr>]"
    by blast
  with hash empty show ?thesis
    by (simp add: newTransaction_def request_fields ALICE_normal)
qed

text \<open>
  C3 as stated fails when the read of the points, made before the commit, is rejected
  after the write succeeded: the ledger holds the transaction (1010 points), the session is
  aborted, no record is kept and the caller gets 500.
\<close>

theorem recordTransactionHandler_read_failure_counterexample:
  "fst (recordTransaction alice (clock read_outage_world) read_outage_world) =
      Inr \<lparr>success = True, txHash = ''0xtx''\<rparr>
   \<and> fst (recordTransactionHandler demo_request read_outage_world) =
       ((500, ErrorBody ''Blockchain Error'' ''Failed to record transaction on blockchain: ''
                (Some (ChainCallFailed (CallGetUserPoints alice)))),
        \<lparr>staged = None, state = Aborted\<rparr>)
   \<and> transactions (snd (recordTransactionHandler demo_request read_outage_world)) = []
   \<and> ledger_userPoints (ledger (snd (recordTransactionHandler demo_request read_outage_world))) alice = 1010"
  by (simp add: run_defs)

text \<open>
  C4. If the user exists and the contract rejects the write, the handler answers 500
  "Blockchain Error" carrying the ledger's error, the session ends aborted with nothing
  staged, and the world is unchanged but for the log of the rejected call: the
  collection of transactions holds no record of the attempt, whoever queries it later.
  A record that the validators refuse never reaches the contract: the answer is 500
  "Internal Server Error", the session ends aborted and the world is unchanged.
\<close>

theorem recordTransactionHandler_rollback:
  assumes user: "users s (toLowerCase (trim (req_userAddress req))) = Some u"
    and chain: "chain_fails s"
  shows "recordTransactionHandler req s =
           (if validateTransaction (newTransaction req (clock s))
            then (((500, ErrorBody ''Blockchain Error'' ''Failed to record transaction on blockchain: ''
                           (Some (ChainCallFailed (CallRecordTransaction (req_userAddress req) (clock s div 1000))))),
                   \<lparr>staged = None, state = Aborted\<rparr>),
                  s\<lparr>chain_log := chain_log s @ [CallRecordTransaction (req_userAddress req) (clock s div 1000)]\<rparr>)
            else (((500, ErrorBody ''Internal Server Error'' ''Failed to record transaction'' None),
                   \<lparr>staged = None, state = Aborted\<rparr>), s))"
  using assms
  by (simp add: handler_defs recordTransaction_def chain_fails_def chain_called_def Let_def)

theorem recordTransactionHandler_rollback_witness:
  "fst (fst (recordTransactionHandler demo_request (demo_world\<lparr>chain_down := always\<rparr>))) =
       (500, ErrorBody ''Blockchain Error'' ''Failed to record transaction on blockchain: ''
               (Some (ChainCallFailed (CallRecordTransaction alice 1700000000))))
   \<and> snd (fst (recordTransactionHandler demo_request (demo_world\<lparr>chain_down := always\<rparr>))) =
       \<lparr>staged = None, state = Aborted\<rparr>
   \<and> transactions (snd (recordTransactionHandler demo_request (demo_world\<lparr>chain_down := always\<rparr>))) = []"
proof -
  let ?w = "demo_world\<lparr>chain_down := always\<rparr>"
  have user: "users ?w (toLowerCase (trim (req_userAddress demo_request))) =
      Some \<lparr>user_email = ''alice@example.org''\<rparr>"
    by (simp add: request_fields alice_normal demo_defs)
  have chain: "chain_fails ?w"
    by (simp add: demo_defs chain_fails_def)
  have valid: "validateTransaction (newTransaction demo_request (clock ?w))"
    by (rule demo_request_valid)
  have facts: "clock ?w div 1000 = 1700000000" "transactions ?w = []"
    by (simp_all add: demo_defs)
  from recordTransactionHandler_rollback [OF user chain] valid facts
  show ?thesis
    by (simp add: request_fields)
qed

text \<open>
  C9, as amended. Take a request that is answered 200: a registered user, a record that
  passes the validators, a write the contract accepts, and reads of the points and of
  the NFT metadata that return values. The notifier is handed the free-wash mail and
  then the tier-change mail exactly once if the tier of the points read differs from the
  tier in the NFT metadata read (Bronze when that field is empty), and no tier-change
  mail if the two are equal; with a broadcast channel, the tier-upgrade broadcast follows
  the transaction broadcast under the same condition. When every Redis command and
  contract call is answered, the points and the NFT metadata read are those the ledger
  holds after the write: then a transaction after which the ledger's points give a tier
  other than the one in its NFT metadata sends the mail and the broadcast, whether or
  not the transaction changed the tier.
\<close>

theorem recordTransactionHandler_tier_change:
  assumes user: "users s (toLowerCase (trim (req_userAddress req))) = Some u"
    and valid: "validateTransaction (newTransaction req (clock s))"
    and chainw: "recordTransaction (req_userAddress req) (clock s) s = (Inr r, s1)"
    and mail: "sendFreeWashActivatedNotification (user_email u) (req_date req) s1 = (b, s2)"
    and pts: "getUserPoints (req_userAddress req) s2 = (Inr p, s3)"
    and nft: "getNFTMetadata (req_userAddress req) s3 = (Inr m, s4)"
  shows
    "(let a = req_userAddress req;
          newTier = (case p of JNum n \<Rightarrow> determineTierByPoints n | _ \<Rightarrow> ''Bronze'');
          currentTier = (case m of
                           JNft md \<Rightarrow> (if nft_tier md = [] then ''Bronze'' else nft_tier md)
                         | _ \<Rightarrow> ''Bronze'');
          s' = snd (recordTransactionHandler req s)
      in map fst (mail_log s') =
           map fst (mail_log s) @ [FreeWashActivatedMail (user_email u) (req_date req)] @
           (if newTier \<noteq> currentTier then [TierUpgradeMail a p newTier] else [])
       \<and> emitted s' =
           emitted s @
           (if io s
            then [TransactionRecorded a (req_date req) (req_vehicleType req) (req_serviceType req) p] @
                 (if newTier \<noteq> currentTier then [TierUpgraded a currentTier newTier p] else [])
            else []))
   \<and> ((\<forall>n. \<not> redis_down s n) \<and> (\<forall>n. \<not> chain_down s n) \<longrightarrow>
        p = JNum (Number_of (ledger_userPoints (ledger s1) (req_userAddress req)))
        \<and> m = JNft
            \<lparr>nft_tokenId = Number_of (nft_tokenId (ledger_nftMetadata (ledger s1) (req_userAddress req))),
             nft_metadataURI = nft_metadataURI (ledger_nftMetadata (ledger s1) (req_userAddress req)),
             nft_points = Number_of (nft_points (ledger_nftMetadata (ledger s1) (req_userAddress req))),
             nft_tier = nft_tier (ledger_nftMetadata (ledger s1) (req_userAddress req)),
             nft_expiryTime = Number_of (nft_expiryTime (ledger_nftMetadata (ledger s1) (req_userAddress req))),
             nft_exists = nft_exists (ledger_nftMetadata (ledger s1) (req_userAddress req))\<rparr>)"
    (is "?events \<and> (?up \<longrightarrow> ?fresh)")
proof -
  let ?a = "req_userAddress req"
  let ?ml = "FreeWashActivatedMail (user_email u) (req_date req)"
  have s1: "s1 = snd (recordTransaction ?a (clock s) s)"
    using chainw by simp
  have s2: "s2 = snd (sendEmail ?ml s1)"
    using mail by (simp add: sendFreeWashActivatedNotification_def)
  have s3: "s3 = snd (getUserPoints ?a s2)"
    using pts by simp
  have s4: "s4 = snd (getNFTMetadata ?a s3)"
    using nft by simp
  have log4: "mail_log s4 = mail_log s @ [(?ml, \<not> mail_down s (length (mail_log s)))]"
    by (simp add: s4 s3 s2 s1 frames)
  have rest4: "emitted s4 = emitted s" "io s4 = io s"
    by (simp_all add: s4 s3 s2 s1 frames)
  have events: ?events
    using user valid chainw mail pts nft log4 rest4
    by (simp add: recordTransactionHandler_def startTransaction_def save_def
        commitTransaction_def emit_def sendTierUpgradeNotification_def sendEmail_def Let_def)
  have fresh: ?fresh if up: ?up
  proof -
    from up have r0: "\<forall>n. \<not> redis_down s n" and c0: "\<forall>n. \<not> chain_down s n"
      by simp_all
    have r2: "\<forall>n. \<not> redis_down s2 n" and c2: "\<forall>n. \<not> chain_down s2 n"
      using r0 c0 by (simp_all add: s2 s1 sendEmail_services recordTransaction_up [OF r0 c0])
    have miss2: "redis_data s2 (generateKey USER_POINTS ?a) = None"
      and nft2: "redis_data s2 (generateKey NFT_METADATA ?a) = None"
      by (simp_all add: s2 s1 sendEmail_services recordTransaction_up [OF r0 c0])
    have l2: "ledger s2 = ledger s1"
      by (simp add: s2 sendEmail_services)
    have p: "p = JNum (Number_of (ledger_userPoints (ledger s1) ?a))"
      using getUserPoints_miss(1) [OF r2 c2 miss2] pts l2 by simp
    have r3: "\<forall>n. \<not> redis_down s3 n" and c3: "\<forall>n. \<not> chain_down s3 n"
      using r2 c2 by (simp_all add: s3 getUserPoints_miss [OF r2 c2 miss2])
    have miss3: "redis_data s3 (generateKey NFT_METADATA ?a) = None"
      using nft2 by (simp add: s3 getUserPoints_miss [OF r2 c2 miss2])
    have l3: "ledger s3 = ledger s1"
      using l2 by (simp add: s3 getUserPoints_miss [OF r2 c2 miss2])
    from getNFTMetadata_miss [OF r3 c3 miss3] nft l3 p show ?thesis
      by simp
  qed
  from events fresh show ?thesis
    by blast
qed

theorem recordTransactionHandler_tier_change_witness:
  "map fst (mail_log (snd (recordTransactionHandler demo_request demo_world))) =
       [FreeWashActivatedMail ''alice@example.org'' ''2023-11-14'',
        TierUpgradeMail alice (JNum 1010) ''Silver'']
   \<and> emitted (snd (recordTransactionHandler demo_request demo_world)) =
       [TransactionRecorded alice ''2023-11-14'' ''Mobil Kecil'' ''Reguler'' (JNum 1010),
        TierUpgraded alice ''Bronze'' ''Silver'' (JNum 1010)]"
proof -
  let ?u = "\<lparr>user_email = ''alice@example.org''\<rparr>"
  have user: "users demo_world (toLowerCase (trim (req_userAddress demo_request))) = Some ?u"
    by (simp add: request_fields alice_normal demo_defs)
  have valid: "validateTransaction (newTransaction demo_request (clock demo_world))"
    by (rule demo_request_valid)
  have redis: "\<forall>n. \<not> redis_down demo_world n" and chain: "\<forall>n. \<not> chain_down demo_world n"
    by (simp_all add: demo_defs)
  have never: "\<not> chain_fails s" if "chain_down s = chain_down demo_world" for s
    using that chain by (simp add: chain_fails_def)
  obtain r s1 where chainw: "recordTransaction (req_userAddress demo_request) (clock demo_world) demo_world = (Inr r, s1)"
    using recordTransaction_ok(1) [OF never [OF refl], of "req_userAddress demo_request" "clock demo_world"]
    by (cases "recordTransaction (req_userAddress demo_request) (clock demo_world) demo_world") simp
  have s1: "s1 = snd (recordTransaction (req_userAddress demo_request) (clock demo_world) demo_world)"
    using chainw by simp
  obtain b s2 where mail: "sendFreeWashActivatedNotification (user_email ?u) (req_date demo_request) s1 = (b, s2)"
    by (cases "sendFreeWashActivatedNotification (user_email ?u) (req_date demo_request) s1")
  have s2: "s2 = snd (sendEmail (FreeWashActivatedMail (user_email ?u) (req_date demo_request)) s1)"
    using mail by (simp add: sendFreeWashActivatedNotification_def)
  have "\<not> chain_fails s2"
    by (rule never) (simp add: s2 s1 chain_down_frame)
  then obtain p s3 where pts: "getUserPoints (req_userAddress demo_request) s2 = (Inr p, s3)"
    using getUserPoints_ok [of s2 "req_userAddress demo_request"]
    by (cases "getUserPoints (req_userAddress demo_request) s2") auto
  have s3: "s3 = snd (getUserPoints (req_userAddress demo_request) s2)"
    using pts by simp
  have "\<not> chain_fails s3"
    by (rule never) (simp add: s3 s2 s1 chain_down_frame)
  then obtain m s4 where nft: "getNFTMetadata (req_userAddress demo_request) s3 = (Inr m, s4)"
    using getNFTMetadata_ok [of s3 "req_userAddress demo_request"]
    by (cases "getNFTMetadata (req_userAddress demo_request) s3") auto
  have "ledger s1 = fst (contract_recordTransaction demo_world alice (clock demo_world div 1000)
      (ledger demo_world))"
    by (simp add: s1 recordTransaction_ok(2) [OF never [OF refl]] request_fields)
  then have l1: "ledger_userPoints (ledger s1) alice = 1010"
    "ledger_nftMetadata (ledger s1) alice = demo_nft"
    by (simp_all add: demo_defs)
  have num: "Number_of 1010 = 1010" "Number_of 950 = 950" "Number_of 1 = 1" "Number_of 0 = 0"
    by (simp_all add: Number_of_def bitlen.simps)
  from recordTransactionHandler_tier_change [OF user valid chainw mail pts nft] redis chain l1 num
  show ?thesis
    by (simp add: Let_def request_fields determineTierByPoints_def demo_defs)
qed

text \<open>
  C9 as stated fails on the second of two identical requests: the first takes the user
  from 950 to 1010 points, the second changes neither points nor tier, the NFT metadata
  still says Bronze, and the tier-change mail and broadcast are sent a second time.
\<close>

theorem recordTransactionHandler_repeat_counterexample:
  "ledger_userPoints (ledger demo_world) alice = 950
   \<and> ledger_userPoints (ledger (snd (recordTransactionHandler demo_request demo_world))) alice = 1010
   \<and> ledger_userPoints (ledger (snd (recordTransactionHandler demo_request
         (snd (recordTransactionHandler demo_request demo_world))))) alice = 1010
   \<and> nft_tier (ledger_nftMetadata (ledger (snd (recordTransactionHandler demo_request demo_world))) alice)
       = ''Bronze''
   \<and> emitted (snd (recordTransactionHandler demo_request
         (snd (recordTransactionHandler demo_request demo_world)))) =
       [TransactionRecorded alice ''2023-11-14'' ''Mobil Kecil'' ''Reguler'' (JNum 1010),
        TierUpgraded alice ''Bronze'' ''Silver'' (JNum 1010),
        TransactionRecorded alice ''2023-11-14'' ''Mobil Kecil'' ''Reguler'' (JNum 1010),
        TierUpgraded alice ''Bronze'' ''Silver'' (JNum 1010)]
   \<and> map fst (mail_log (snd (recordTransactionHandler demo_request
         (snd (recordTransactionHandler demo_request demo_world))))) =
       [FreeWashActivatedMail ''alice@example.org'' ''2023-11-14'',
        TierUpgradeMail alice (JNum 1010) ''Silver'',
        FreeWashActivatedMail ''alice@example.org'' ''2023-11-14'',
        TierUpgradeMail alice (JNum 1010) ''Silver'']"
  by (simp add: run_defs)

section \<open>Package redemption: properties\<close>

text \<open>What the points read of \<open>signRedeemPackage\<close> does to the ledger and to its log.\<close>

lemma getUserPoints_ledger:
  "ledger (snd (getUserPoints a s)) = ledger s"
  "chain_log (snd (getUserPoints a s)) = chain_log s
     \<or> chain_log (snd (getUserPoints a s)) = chain_log s @ [CallGetUserPoints a]"
  by (simp_all add: getUserPoints_def cache_defs Let_def split: prod.splits option.splits)

text \<open>
  C10. The required points are 1000 for package type 1, 3000 for type 2 and 5000 for
  type 3. Any other package type makes the request fail (with the invalid-package error
  once the points have been read). Points below the threshold make it fail with the
  insufficient-points error. In both cases the world is the one the points read left: no
  signature was asked for and no ledger write was attempted, the ledger is unchanged.
  With enough points the request goes on to the signature.
\<close>

theorem signRedeemPackage_rejections:
  "requiredPoints 1 = Inr 1000 \<and> requiredPoints 2 = Inr 3000 \<and> requiredPoints 3 = Inr 5000
   \<and> (packageType \<noteq> 1 \<and> packageType \<noteq> 2 \<and> packageType \<noteq> 3 \<longrightarrow>
        requiredPoints packageType = Inl InvalidPackageType
        \<and> (\<exists>e. fst (signRedeemPackage a packageType nonce s) = Inl e)
        \<and> (\<forall>points. fst (getUserPoints a s) = Inr points \<longrightarrow>
              fst (signRedeemPackage a packageType nonce s) = Inl InvalidPackageType)
        \<and> snd (signRedeemPackage a packageType nonce s) = snd (getUserPoints a s))
   \<and> (\<forall>required n. requiredPoints packageType = Inr required
          \<and> fst (getUserPoints a s) = Inr (JNum n) \<and> n < required \<longrightarrow>
        fst (signRedeemPackage a packageType nonce s) = Inl (InsufficientPoints required (JNum n))
        \<and> snd (signRedeemPackage a packageType nonce s) = snd (getUserPoints a s))
   \<and> (\<forall>required n. requiredPoints packageType = Inr required
          \<and> fst (getUserPoints a s) = Inr (JNum n) \<and> required \<le> n \<longrightarrow>
        signRedeemPackage a packageType nonce s =
          generateEIP712Signature a packageType nonce (snd (getUserPoints a s)))
   \<and> ledger (snd (getUserPoints a s)) = ledger s
   \<and> (chain_log (snd (getUserPoints a s)) = chain_log s
        \<or> chain_log (snd (getUserPoints a s)) = chain_log s @ [CallGetUserPoints a])"
proof -
  obtain r s1 where gp: "getUserPoints a s = (r, s1)"
    by (cases "getUserPoints a s")
  have thresholds:
    "requiredPoints 1 = Inr 1000 \<and> requiredPoints 2 = Inr 3000 \<and> requiredPoints 3 = Inr 5000"
    by (simp add: requiredPoints_def)
  have invalid: "packageType \<noteq> 1 \<and> packageType \<noteq> 2 \<and> packageType \<noteq> 3 \<longrightarrow>
        requiredPoints packageType = Inl InvalidPackageType
        \<and> (\<exists>e. fst (signRedeemPackage a packageType nonce s) = Inl e)
        \<and> (\<forall>points. fst (getUserPoints a s) = Inr points \<longrightarrow>
              fst (signRedeemPackage a packageType nonce s) = Inl InvalidPackageType)
        \<and> snd (signRedeemPackage a packageType nonce s) = snd (getUserPoints a s)"
    using gp by (cases r) (simp_all add: signRedeemPackage_def requiredPoints_def)
  have insufficient: "\<forall>required n. requiredPoints packageType = Inr required
          \<and> fst (getUserPoints a s) = Inr (JNum n) \<and> n < required \<longrightarrow>
        fst (signRedeemPackage a packageType nonce s) = Inl (InsufficientPoints required (JNum n))
        \<and> snd (signRedeemPackage a packageType nonce s) = snd (getUserPoints a s)"
    using gp by (simp add: signRedeemPackage_def js_less_def)
  have enough: "\<forall>required n. requiredPoints packageType = Inr required
          \<and> fst (getUserPoints a s) = Inr (JNum n) \<and> required \<le> n \<longrightarrow>
        signRedeemPackage a packageType nonce s =
          generateEIP712Signature a packageType nonce (snd (getUserPoints a s))"
    using gp by (simp add: signRedeemPackage_def js_less_def)
  from thresholds invalid insufficient enough getUserPoints_ledger [of a s]
  show ?thesis by blast
qed

theorem signRedeemPackage_rejections_witness:
  "fst (signRedeemPackage alice 4 7 demo_world) = Inl InvalidPackageType
   \<and> fst (signRedeemPackage alice 1 7 demo_world) = Inl (InsufficientPoints 1000 (JNum 950))
   \<and> chain_log (snd (signRedeemPackage alice 1 7 demo_world)) = [CallGetUserPoints alice]
   \<and> ledger (snd (signRedeemPackage alice 1 7 demo_world)) = ledger demo_world"
proof -
  have pts: "fst (getUserPoints alice demo_world) = Inr (JNum 950)"
    by (simp add: getUserPoints_def cache_defs key_defs demo_defs Let_def Number_of_def bitlen.simps)
  have log: "chain_log (snd (getUserPoints alice demo_world)) = [CallGetUserPoints alice]"
    by (simp add: getUserPoints_def cache_defs key_defs demo_defs Let_def Number_of_def bitlen.simps)
  have req: "requiredPoints 1 = Inr 1000"
    by (simp add: requiredPoints_def)
  from signRedeemPackage_rejections [of 4 alice 7 demo_world]
    signRedeemPackage_rejections [of 1 alice 7 demo_world] pts log req
  show ?thesis by simp
qed

end
